theory Spec2Isabelle
  imports Main "HOL-Library.Sublist"
begin

section \<open>Strings\<close>

text \<open>
  The server (\<^verbatim>\<open>server.js\<close>) is an Express application over a directory of uploaded
  files. A JavaScript string is modelled by the list of the bytes of its UTF-8 encoding
  (\<^typ>\<open>string\<close>). Every string operation of the program (\<^verbatim>\<open>split\<close> on a comma or a
  space, \<^verbatim>\<open>endsWith\<close> and \<^verbatim>\<open>slice\<close> with an ASCII suffix, concatenation) acts on such
  a list as it acts on the string.
\<close>

text \<open>\<^verbatim>\<open>s.split(sep)\<close> for a one-character separator: never empty, \<^verbatim>\<open>"".split(",")\<close> is \<^verbatim>\<open>[""]\<close>.\<close>

fun split_on :: "char \<Rightarrow> string \<Rightarrow> string list" where
  "split_on sep [] = [[]]"
| "split_on sep (c # cs) =
     (if c = sep then [] # split_on sep cs
      else (case split_on sep cs of
              [] \<Rightarrow> [[c]]
            | r # rs \<Rightarrow> (c # r) # rs))"

text \<open>\<^verbatim>\<open>s.endsWith(suf)\<close>.\<close>

definition endsWith :: "string \<Rightarrow> string \<Rightarrow> bool" where
  "endsWith s suf = (length suf \<le> length s \<and> drop (length s - length suf) s = suf)"

text \<open>\<^verbatim>\<open>s.slice(0, -5)\<close>: the string without its last five characters (empty when shorter).\<close>

definition slice_off5 :: "string \<Rightarrow> string" where
  "slice_off5 s = take (length s - 5) s"

text \<open>The decimal digits of \<^verbatim>\<open>Date.now()\<close>, as the template literal prints them.\<close>

fun decimal :: "nat \<Rightarrow> string" where
  "decimal n =
     (if n < 10 then [char_of (48 + n)]
      else decimal (n div 10) @ [char_of (48 + n mod 10)])"

declare decimal.simps [simp del]

section \<open>Errors\<close>

text \<open>
  Every exception the program can meet is a value. A failed file-system call carries
  its error code, the system call and the path, from which Node builds the message
  (\<^verbatim>\<open>ENOENT: no such file or directory, stat '/srv/app/uploads/a'\<close>); the error of a
  failed read on an open file has no path (\<^verbatim>\<open>EISDIR: illegal operation on a directory, read\<close>).
\<close>

datatype errno = ENOENT | ENOTDIR | EISDIR

datatype js_error =
    SystemError errno string string
  | SystemErrorNoPath errno string
  | URIError
  | InvalidArgType
  | InvalidHeaderChar string
  | Error string

fun errno_text :: "errno \<Rightarrow> string" where
  "errno_text ENOENT = ''ENOENT: no such file or directory''"
| "errno_text ENOTDIR = ''ENOTDIR: not a directory''"
| "errno_text EISDIR = ''EISDIR: illegal operation on a directory''"

text \<open>\<^verbatim>\<open>error.message\<close>.\<close>

fun message :: "js_error \<Rightarrow> string" where
  "message (SystemError code syscall p) =
     errno_text code @ '', '' @ syscall @ '' '' @ [CHR 0x27] @ p @ [CHR 0x27]"
| "message (SystemErrorNoPath code syscall) = errno_text code @ '', '' @ syscall"
| "message URIError = ''URI malformed''"
| "message InvalidArgType =
     ''The first argument must be of type string or an instance of Buffer, ArrayBuffer, or Array or an Array-like Object. Received undefined''"
| "message (InvalidHeaderChar h) =
     ''Invalid character in header content ['' @ [CHR 0x22] @ h @ [CHR 0x22] @ '']''"
| "message (Error m) = m"

section \<open>Paths\<close>

text \<open>
  \<^verbatim>\<open>uploadsDir\<close> is \<^verbatim>\<open>path.join(__dirname, 'uploads')\<close>: an absolute, normalised POSIX path.
  Such a path is represented by the list of its segments together with a flag for a
  trailing separator: \<^verbatim>\<open>/srv/app/uploads\<close> is \<open>[''srv'', ''app'', ''uploads'']\<close>, and the
  root \<^verbatim>\<open>/\<close> is the empty list.
\<close>

record path =
  segs :: "string list"
  trailing :: bool

text \<open>
  \<^verbatim>\<open>normalizeString\<close> of Node's \<^verbatim>\<open>path\<close> module on an absolute path: empty segments and
  \<^verbatim>\<open>.\<close> are dropped, \<^verbatim>\<open>..\<close> removes the segment before it and is dropped at the root.
\<close>

fun normalize_segs :: "string list \<Rightarrow> string list \<Rightarrow> string list" where
  "normalize_segs acc [] = acc"
| "normalize_segs acc (s # ss) =
     (if s = [] \<or> s = ''.'' then normalize_segs acc ss
      else if s = ''..'' then normalize_segs (butlast acc) ss
      else normalize_segs (acc @ [s]) ss)"

text \<open>
  \<^verbatim>\<open>path.join(dir, arg)\<close> for an absolute normalised \<open>dir\<close>: the two are joined with a
  separator and normalised; a trailing separator of \<open>arg\<close> is kept. No check confines
  the result to \<open>dir\<close>.
\<close>

definition path_join :: "string list \<Rightarrow> string \<Rightarrow> path" where
  "path_join dir arg =
     \<lparr>segs = normalize_segs dir (split_on CHR ''/'' arg),
      trailing = (arg \<noteq> [] \<and> last arg = CHR ''/'')\<rparr>"

text \<open>The upload directory itself, as a path.\<close>

definition dir_path :: "string list \<Rightarrow> path" where
  "dir_path dir = \<lparr>segs = dir, trailing = False\<rparr>"

text \<open>
  \<^verbatim>\<open>filePath + ext\<close> is string concatenation: the suffix extends the last segment,
  or is a segment of its own after a trailing separator (and at the root).
\<close>

definition path_plus :: "path \<Rightarrow> string \<Rightarrow> path" where
  "path_plus p ext =
     (if segs p = [] \<or> trailing p then \<lparr>segs = segs p @ [ext], trailing = False\<rparr>
      else \<lparr>segs = butlast (segs p) @ [last (segs p) @ ext], trailing = False\<rparr>)"

fun join_segs :: "string list \<Rightarrow> string" where
  "join_segs [] = []"
| "join_segs (s # ss) = ''/'' @ s @ join_segs ss"

text \<open>The path as the string the program holds (it appears in error messages).\<close>

definition path_string :: "path \<Rightarrow> string" where
  "path_string p =
     (if segs p = [] then ''/''
      else join_segs (segs p) @ (if trailing p then ''/'' else []))"

text \<open>
  The upload directory of the running server, from the directory of \<^verbatim>\<open>server.js\<close>.
\<close>

definition uploadsDir :: "string list \<Rightarrow> string list" where
  "uploadsDir dirname = segs (path_join dirname ''uploads'')"

section \<open>UTF-8\<close>

text \<open>A continuation byte of a UTF-8 sequence.\<close>

definition is_cont :: "nat \<Rightarrow> bool" where
  "is_cont b = (128 \<le> b \<and> b \<le> 191)"

text \<open>The second byte of a UTF-8 sequence, by its first byte (no overlong form, no surrogate).\<close>

definition second_ok :: "nat \<Rightarrow> nat \<Rightarrow> bool" where
  "second_ok b b1 =
     (if b = 224 then 160 \<le> b1 \<and> b1 \<le> 191
      else if b = 237 then 128 \<le> b1 \<and> b1 \<le> 159
      else if b = 240 then 144 \<le> b1 \<and> b1 \<le> 191
      else if b = 244 then 128 \<le> b1 \<and> b1 \<le> 143
      else is_cont b1)"

text \<open>The replacement character \<^verbatim>\<open>U+FFFD\<close>.\<close>

definition replacement :: string where
  "replacement = [CHR 0xEF, CHR 0xBF, CHR 0xBD]"

text \<open>
  How Node makes a string of the bytes of a file name: well-formed UTF-8 sequences are
  kept, and each ill-formed one (a byte that can start nothing, or the longest prefix of
  a sequence that its next byte does not continue) becomes one replacement character.
\<close>

fun utf8_to_string :: "string \<Rightarrow> string" where
  "utf8_to_string [] = []"
| "utf8_to_string (c # cs) =
     (if (of_char c :: nat) < 128 then c # utf8_to_string cs
      else if 194 \<le> (of_char c :: nat) \<and> (of_char c :: nat) \<le> 223 then
        (case cs of
           [] \<Rightarrow> replacement
         | c1 # cs1 \<Rightarrow>
             if is_cont (of_char c1) then c # c1 # utf8_to_string cs1
             else replacement @ utf8_to_string cs)
      else if 224 \<le> (of_char c :: nat) \<and> (of_char c :: nat) \<le> 239 then
        (case cs of
           [] \<Rightarrow> replacement
         | c1 # cs1 \<Rightarrow>
             if second_ok (of_char c) (of_char c1) then
               (case cs1 of
                  [] \<Rightarrow> replacement
                | c2 # cs2 \<Rightarrow>
                    if is_cont (of_char c2) then c # c1 # c2 # utf8_to_string cs2
                    else replacement @ utf8_to_string cs1)
             else replacement @ utf8_to_string cs)
      else if 240 \<le> (of_char c :: nat) \<and> (of_char c :: nat) \<le> 244 then
        (case cs of
           [] \<Rightarrow> replacement
         | c1 # cs1 \<Rightarrow>
             if second_ok (of_char c) (of_char c1) then
               (case cs1 of
                  [] \<Rightarrow> replacement
                | c2 # cs2 \<Rightarrow>
                    if is_cont (of_char c2) then
                      (case cs2 of
                         [] \<Rightarrow> replacement
                       | c3 # cs3 \<Rightarrow>
                           if is_cont (of_char c3) then c # c1 # c2 # c3 # utf8_to_string cs3
                           else replacement @ utf8_to_string cs2)
                    else replacement @ utf8_to_string cs1)
             else replacement @ utf8_to_string cs)
      else replacement @ utf8_to_string cs)"

text \<open>A name that is well-formed UTF-8: Node reads it as it is.\<close>

definition utf8_name :: "string \<Rightarrow> bool" where
  "utf8_name n = (utf8_to_string n = n)"

section \<open>The file system\<close>

text \<open>
  The state the handlers read and change: the entries of the file system, each under
  its absolute path, in the order a directory enumeration returns them. An entry is a
  regular file (its bytes and its modification time) or a directory. Symbolic links,
  permissions and special files are not modelled.
\<close>

datatype node = File string nat | Dir

type_synonym filesystem = "(string list \<times> node) list"

text \<open>A name a directory entry can have.\<close>

definition valid_name :: "string \<Rightarrow> bool" where
  "valid_name n =
     (n \<noteq> [] \<and> n \<noteq> ''.'' \<and> n \<noteq> ''..'' \<and> CHR ''/'' \<notin> set n \<and> CHR 0x00 \<notin> set n)"

text \<open>
  A well-formed file system: no path twice, every segment a name, and every entry
  below the root inside a directory.
\<close>

definition wf_fs :: "filesystem \<Rightarrow> bool" where
  "wf_fs fs =
     (distinct (map fst fs) \<and>
      list_all (\<lambda>(p, n). p \<noteq> [] \<and> list_all valid_name p \<and>
                 (butlast p = [] \<or> map_of fs (butlast p) = Some Dir)) fs)"

text \<open>
  Path resolution, as \<^verbatim>\<open>stat(2)\<close> does it: the root is a directory, a missing entry is
  \<^verbatim>\<open>ENOENT\<close>, and a path with a trailing separator must name a directory.
\<close>

definition node_at :: "filesystem \<Rightarrow> path \<Rightarrow> errno + node" where
  "node_at fs p =
     (if segs p = [] then Inr Dir
      else (case map_of fs (segs p) of
              None \<Rightarrow> Inl ENOENT
            | Some n \<Rightarrow> if trailing p \<and> n \<noteq> Dir then Inl ENOTDIR else Inr n))"

text \<open>\<^verbatim>\<open>fs.existsSync\<close> never throws.\<close>

definition existsSync :: "filesystem \<Rightarrow> path \<Rightarrow> bool" where
  "existsSync fs p = (case node_at fs p of Inl _ \<Rightarrow> False | Inr _ \<Rightarrow> True)"

record stats =
  isFile :: bool
  st_size :: nat
  mtime :: nat

text \<open>
  \<^verbatim>\<open>fs.statSync\<close>. Of a directory the program reads \<^verbatim>\<open>isFile()\<close> only.
\<close>

definition statSync :: "filesystem \<Rightarrow> path \<Rightarrow> js_error + stats" where
  "statSync fs p =
     (case node_at fs p of
        Inl code \<Rightarrow> Inl (SystemError code ''stat'' (path_string p))
      | Inr (File bytes t) \<Rightarrow> Inr \<lparr>isFile = True, st_size = length bytes, mtime = t\<rparr>
      | Inr Dir \<Rightarrow> Inr \<lparr>isFile = False, st_size = 0, mtime = 0\<rparr>)"

text \<open>
  \<^verbatim>\<open>fs.unlinkSync\<close>: removes a regular file; on a directory it throws \<^verbatim>\<open>EISDIR\<close>.
\<close>

definition unlinkSync :: "filesystem \<Rightarrow> path \<Rightarrow> js_error + filesystem" where
  "unlinkSync fs p =
     (case node_at fs p of
        Inl code \<Rightarrow> Inl (SystemError code ''unlink'' (path_string p))
      | Inr Dir \<Rightarrow> Inl (SystemError EISDIR ''unlink'' (path_string p))
      | Inr (File bytes t) \<Rightarrow> Inr (filter (\<lambda>(k, n). k \<noteq> segs p) fs))"

text \<open>The names, as bytes, of the entries directly inside a directory.\<close>

definition entry_names :: "filesystem \<Rightarrow> string list \<Rightarrow> string list" where
  "entry_names fs dir =
     map (\<lambda>(k, n). last k) (filter (\<lambda>(k, n). k \<noteq> [] \<and> butlast k = dir) fs)"

text \<open>
  \<^verbatim>\<open>fs.readdirSync\<close>: the names of the entries of a directory, each read as UTF-8. A name
  that is not well-formed UTF-8 comes back changed, and names no entry any more.
\<close>

definition readdirSync :: "filesystem \<Rightarrow> path \<Rightarrow> js_error + string list" where
  "readdirSync fs p =
     (case node_at fs p of
        Inl code \<Rightarrow> Inl (SystemError code ''scandir'' (path_string p))
      | Inr (File bytes t) \<Rightarrow> Inl (SystemError ENOTDIR ''scandir'' (path_string p))
      | Inr Dir \<Rightarrow> Inr (map utf8_to_string (entry_names fs (segs p))))"

section \<open>Percent-encoding\<close>

definition hex_value :: "char \<Rightarrow> nat option" where
  "hex_value c =
     (let n = (of_char c :: nat) in
      if 48 \<le> n \<and> n \<le> 57 then Some (n - 48)
      else if 65 \<le> n \<and> n \<le> 70 then Some (n - 55)
      else if 97 \<le> n \<and> n \<le> 102 then Some (n - 87)
      else None)"

datatype pct_token = Literal char | Escaped nat

text \<open>
  The escapes of a string: a \<^verbatim>\<open>%\<close> must be followed by two hexadecimal digits.
\<close>

fun pct_tokens :: "string \<Rightarrow> pct_token list option" where
  "pct_tokens [] = Some []"
| "pct_tokens (c # cs) =
     (if c = CHR ''%'' then
        (case cs of
           h # l # rest \<Rightarrow>
             (case hex_value h of
                None \<Rightarrow> None
              | Some a \<Rightarrow>
                  (case hex_value l of
                     None \<Rightarrow> None
                   | Some b \<Rightarrow> map_option ((#) (Escaped (16 * a + b))) (pct_tokens rest)))
         | _ \<Rightarrow> None)
      else map_option ((#) (Literal c)) (pct_tokens cs))"

text \<open>
  An escaped byte below 128 is its character; a greater one must start a well-formed
  UTF-8 sequence, all of whose bytes are escaped.
\<close>

fun decode_tokens :: "pct_token list \<Rightarrow> string option" where
  "decode_tokens [] = Some []"
| "decode_tokens (Literal c # ts) = map_option ((#) c) (decode_tokens ts)"
| "decode_tokens (Escaped b # ts) =
     (if b < 128 then map_option ((#) (char_of b)) (decode_tokens ts)
      else if 194 \<le> b \<and> b \<le> 223 then
        (case ts of
           Escaped b1 # ts' \<Rightarrow>
             if is_cont b1 then map_option ((@) (map char_of [b, b1])) (decode_tokens ts')
             else None
         | _ \<Rightarrow> None)
      else if 224 \<le> b \<and> b \<le> 239 then
        (case ts of
           Escaped b1 # Escaped b2 # ts' \<Rightarrow>
             if second_ok b b1 \<and> is_cont b2
             then map_option ((@) (map char_of [b, b1, b2])) (decode_tokens ts')
             else None
         | _ \<Rightarrow> None)
      else if 240 \<le> b \<and> b \<le> 244 then
        (case ts of
           Escaped b1 # Escaped b2 # Escaped b3 # ts' \<Rightarrow>
             if second_ok b b1 \<and> is_cont b2 \<and> is_cont b3
             then map_option ((@) (map char_of [b, b1, b2, b3])) (decode_tokens ts')
             else None
         | _ \<Rightarrow> None)
      else None)"

text \<open>\<^verbatim>\<open>decodeURIComponent\<close>: throws \<^verbatim>\<open>URIError\<close> on a malformed escape.\<close>

definition decodeURIComponent :: "string \<Rightarrow> js_error + string" where
  "decodeURIComponent s =
     (case pct_tokens s of
        None \<Rightarrow> Inl URIError
      | Some ts \<Rightarrow> (case decode_tokens ts of None \<Rightarrow> Inl URIError | Some r \<Rightarrow> Inr r))"

definition unreserved :: "char \<Rightarrow> bool" where
  "unreserved c =
     (let n = (of_char c :: nat) in
      (48 \<le> n \<and> n \<le> 57) \<or> (65 \<le> n \<and> n \<le> 90) \<or> (97 \<le> n \<and> n \<le> 122) \<or>
      c \<in> set ''-_.!~*()'' \<or> n = 39)"

definition hex_digit :: "nat \<Rightarrow> char" where
  "hex_digit n = (if n < 10 then char_of (48 + n) else char_of (55 + n))"

text \<open>\<^verbatim>\<open>encodeURIComponent\<close>: every byte but the unreserved characters is escaped.\<close>

definition encodeURIComponent :: "string \<Rightarrow> string" where
  "encodeURIComponent s =
     concat (map (\<lambda>c. if unreserved c then [c]
                      else [CHR ''%'', hex_digit ((of_char c :: nat) div 16),
                            hex_digit ((of_char c :: nat) mod 16)]) s)"

section \<open>Responses\<close>

record file_info =
  name :: string
  size' :: nat
  uploadedAt :: nat
  url :: string

text \<open>
  What a handler sends: the JSON bodies the program builds or the bytes of a streamed
  file; \<open>StreamFailed\<close> stands for a read stream that failed, when nothing is sent.
\<close>

datatype body =
    NoBody
  | JsonError string
  | JsonErrorDetails string string
  | JsonMessage string
  | JsonFiles "file_info list"
  | FileStream string
  | StreamFailed js_error

record response =
  status :: nat
  headers :: "(string \<times> string) list"
  body :: body
  headersSent :: bool

text \<open>The response object a handler is given: status 200, nothing sent.\<close>

definition fresh :: response where
  "fresh = \<lparr>status = 200, headers = [], body = NoBody, headersSent = False\<rparr>"

text \<open>\<^verbatim>\<open>res.status(code)\<close> and \<^verbatim>\<open>res.json(value)\<close>.\<close>

definition set_status :: "nat \<Rightarrow> response \<Rightarrow> response" where
  "set_status code res = res\<lparr>status := code\<rparr>"

definition send_json :: "body \<Rightarrow> response \<Rightarrow> response" where
  "send_json b res = res\<lparr>body := b, headersSent := True\<rparr>"

text \<open>
  \<^verbatim>\<open>res.setHeader\<close> throws on a value with a character outside tab, \<^verbatim>\<open>0x20\<close> to \<^verbatim>\<open>0x7e\<close>
  and \<^verbatim>\<open>0x80\<close> to \<^verbatim>\<open>0xff\<close>; in UTF-8 the latter are the two-byte sequences that start
  with \<^verbatim>\<open>0xc2\<close> or \<^verbatim>\<open>0xc3\<close>.
\<close>

fun header_chars_ok :: "nat list \<Rightarrow> bool" where
  "header_chars_ok [] = True"
| "header_chars_ok (b # bs) =
     (if b < 128 then (b = 9 \<or> (32 \<le> b \<and> b \<le> 126)) \<and> header_chars_ok bs
      else if b = 194 \<or> b = 195 then
        (case bs of [] \<Rightarrow> False | b1 # bs' \<Rightarrow> is_cont b1 \<and> header_chars_ok bs')
      else False)"

definition setHeader :: "string \<Rightarrow> string \<Rightarrow> response \<Rightarrow> js_error + response" where
  "setHeader h v res =
     (if header_chars_ok (map of_char v) then Inr (res\<lparr>headers := headers res @ [(h, v)]\<rparr>)
      else Inl (InvalidHeaderChar h))"

text \<open>The three JSON answers of the file API.\<close>

definition not_found :: response where
  "not_found = send_json (JsonError ''File not found'') (set_status 404 fresh)"

definition server_error :: "js_error \<Rightarrow> response" where
  "server_error e = send_json (JsonError (message e)) (set_status 500 fresh)"

definition deleted_ok :: response where
  "deleted_ok = send_json (JsonMessage ''File deleted successfully'') fresh"

section \<open>Deleting a file\<close>

text \<open>\<^verbatim>\<open>if (fs.existsSync(p)) { fs.unlinkSync(p); }\<close>\<close>

definition unlink_if_exists :: "filesystem \<Rightarrow> path \<Rightarrow> js_error + filesystem" where
  "unlink_if_exists fs p = (if existsSync fs p then unlinkSync fs p else Inr fs)"

text \<open>
  \<^verbatim>\<open>app.delete('/api/files/:filename')\<close>. The argument \<open>param\<close> is \<^verbatim>\<open>req.params.filename\<close>;
  the result is the response and the file system the handler leaves. Every exception
  ends in the \<^verbatim>\<open>catch\<close> block, which answers 500 with the message; what was deleted
  before stays deleted.
\<close>

definition delete_file_handler ::
  "string list \<Rightarrow> filesystem \<Rightarrow> string \<Rightarrow> response \<times> filesystem" where
  "delete_file_handler dir fs param =
     (case decodeURIComponent param of
        Inl e \<Rightarrow> (server_error e, fs)
      | Inr filename \<Rightarrow>
          (let filePath = path_join dir filename in
           if \<not> existsSync fs filePath then (not_found, fs)
           else
             (case unlinkSync fs filePath of
                Inl e \<Rightarrow> (server_error e, fs)
              | Inr fs1 \<Rightarrow>
                  (case unlink_if_exists fs1 (path_plus filePath ''.info'') of
                     Inl e \<Rightarrow> (server_error e, fs1)
                   | Inr fs2 \<Rightarrow>
                       (case unlink_if_exists fs2 (path_plus filePath ''.json'') of
                          Inl e \<Rightarrow> (server_error e, fs2)
                        | Inr fs3 \<Rightarrow> (deleted_ok, fs3))))))"

section \<open>Downloading a file\<close>

text \<open>
  \<^verbatim>\<open>fs.createReadStream(filePath).pipe(res)\<close>: the bytes of a regular file. Reading a
  directory fails after the handler has returned, outside its \<^verbatim>\<open>try\<close>: the error of
  the stream (it has no path) is caught by nobody, and no response is sent.
\<close>

definition pipe_file :: "filesystem \<Rightarrow> path \<Rightarrow> response \<Rightarrow> response" where
  "pipe_file fs p res =
     (case node_at fs p of
        Inr (File bytes t) \<Rightarrow> res\<lparr>body := FileStream bytes, headersSent := True\<rparr>
      | Inr Dir \<Rightarrow> res\<lparr>body := StreamFailed (SystemErrorNoPath EISDIR ''read'')\<rparr>
      | Inl code \<Rightarrow> res\<lparr>body := StreamFailed (SystemError code ''open'' (path_string p))\<rparr>)"

text \<open>\<^verbatim>\<open>app.get('/api/files/:filename')\<close>.\<close>

definition get_file_handler :: "string list \<Rightarrow> filesystem \<Rightarrow> string \<Rightarrow> response" where
  "get_file_handler dir fs param =
     (case decodeURIComponent param of
        Inl e \<Rightarrow> server_error e
      | Inr filename \<Rightarrow>
          (let filePath = path_join dir filename in
           if \<not> existsSync fs filePath then not_found
           else
             (case setHeader ''Content-Disposition''
                     (''attachment; filename='' @ [CHR 0x22] @ filename @ [CHR 0x22]) fresh of
                Inl e \<Rightarrow> server_error e
              | Inr res1 \<Rightarrow>
                  (case setHeader ''Content-Type'' ''application/octet-stream'' res1 of
                     Inl e \<Rightarrow> server_error e
                   | Inr res2 \<Rightarrow> pipe_file fs filePath res2))))"

section \<open>Listing the files\<close>

text \<open>
  The callback of \<^verbatim>\<open>filter\<close>: whether a name of the enumeration is kept. It throws when
  a \<^verbatim>\<open>statSync\<close> fails.
\<close>

definition keep_file :: "string list \<Rightarrow> filesystem \<Rightarrow> string \<Rightarrow> js_error + bool" where
  "keep_file dir fs file =
     (let filePath = path_join dir file in
      if endsWith file ''.info'' then Inr False
      else
        (case (if endsWith file ''.json'' then
                 (let baseFileName = slice_off5 file;
                      baseFilePath = path_join dir baseFileName in
                  if existsSync fs baseFilePath then
                    (case statSync fs baseFilePath of
                       Inl e \<Rightarrow> Inl e
                     | Inr st \<Rightarrow> Inr (isFile st))
                  else Inr False)
               else Inr False) of
           Inl e \<Rightarrow> Inl e
         | Inr True \<Rightarrow> Inr False
         | Inr False \<Rightarrow>
             (case statSync fs filePath of
                Inl e \<Rightarrow> Inl e
              | Inr st \<Rightarrow> Inr (isFile st))))"

text \<open>\<^verbatim>\<open>names.filter(callback)\<close>: in order; the first exception ends it.\<close>

fun filter_files :: "string list \<Rightarrow> filesystem \<Rightarrow> string list \<Rightarrow> js_error + string list" where
  "filter_files dir fs [] = Inr []"
| "filter_files dir fs (file # rest) =
     (case keep_file dir fs file of
        Inl e \<Rightarrow> Inl e
      | Inr keep \<Rightarrow>
          (case filter_files dir fs rest of
             Inl e \<Rightarrow> Inl e
           | Inr kept \<Rightarrow> Inr (if keep then file # kept else kept)))"

text \<open>The callback of \<^verbatim>\<open>map\<close>: the descriptor of a kept file.\<close>

definition describe_file :: "string list \<Rightarrow> filesystem \<Rightarrow> string \<Rightarrow> js_error + file_info" where
  "describe_file dir fs file =
     (let filePath = path_join dir file in
      case statSync fs filePath of
        Inl e \<Rightarrow> Inl e
      | Inr st \<Rightarrow>
          Inr \<lparr>name = file, size' = st_size st, uploadedAt = mtime st,
               url = ''/api/files/'' @ encodeURIComponent file\<rparr>)"

fun map_files :: "string list \<Rightarrow> filesystem \<Rightarrow> string list \<Rightarrow> js_error + file_info list" where
  "map_files dir fs [] = Inr []"
| "map_files dir fs (file # rest) =
     (case describe_file dir fs file of
        Inl e \<Rightarrow> Inl e
      | Inr d \<Rightarrow>
          (case map_files dir fs rest of
             Inl e \<Rightarrow> Inl e
           | Inr ds \<Rightarrow> Inr (d # ds)))"

text \<open>
  \<^verbatim>\<open>app.get('/api/files')\<close>. The handler reads the directory once and then asks the file
  system about each name. Other processes can change the directory in between, so the
  enumeration sees \<open>fs_enum\<close> and the calls on the names see \<open>fs_scan\<close>.
\<close>

definition list_files_at :: "string list \<Rightarrow> filesystem \<Rightarrow> filesystem \<Rightarrow> response" where
  "list_files_at dir fs_enum fs_scan =
     (case readdirSync fs_enum (dir_path dir) of
        Inl e \<Rightarrow> server_error e
      | Inr names \<Rightarrow>
          (case filter_files dir fs_scan names of
             Inl e \<Rightarrow> server_error e
           | Inr kept \<Rightarrow>
               (case map_files dir fs_scan kept of
                  Inl e \<Rightarrow> server_error e
                | Inr files \<Rightarrow> send_json (JsonFiles files) fresh)))"

text \<open>The handler when nothing else touches the directory meanwhile.\<close>

definition list_files_handler :: "string list \<Rightarrow> filesystem \<Rightarrow> response" where
  "list_files_handler dir fs = list_files_at dir fs fs"

text \<open>The names a response lists (none when it is not a listing).\<close>

definition listed_names :: "response \<Rightarrow> string list" where
  "listed_names res = (case body res of JsonFiles files \<Rightarrow> map name files | _ \<Rightarrow> [])"

section \<open>Naming an upload\<close>

text \<open>
  \<^verbatim>\<open>metadataObj[key] = value\<close> on an object literal: the key \<^verbatim>\<open>__proto__\<close> reaches the
  setter of \<^verbatim>\<open>Object.prototype\<close>, which ignores a string, and no property is made.
\<close>

definition obj_set :: "(string \<rightharpoonup> string) \<Rightarrow> string \<Rightarrow> string \<Rightarrow> (string \<rightharpoonup> string)" where
  "obj_set obj key v = (if key = ''__proto__'' then obj else obj(key \<mapsto> v))"

text \<open>
  \<^verbatim>\<open>const [key, value] = item.split(' ')\<close>: the first two pieces; \<^verbatim>\<open>value\<close> is undefined
  (\<open>None\<close>) when the item has no space.
\<close>

definition key_value :: "string \<Rightarrow> string \<times> string option" where
  "key_value item =
     (case split_on CHR '' '' item of
        [] \<Rightarrow> ([], None)
      | [key] \<Rightarrow> (key, None)
      | key # v # _ \<Rightarrow> (key, Some v))"

text \<open>
  The \<^verbatim>\<open>forEach\<close> over the pairs. \<open>decode\<close> stands for
  \<^verbatim>\<open>Buffer.from(value, 'base64').toString('utf-8')\<close>, which is total on strings; on an
  undefined \<^verbatim>\<open>value\<close>, \<^verbatim>\<open>Buffer.from\<close> throws a \<^verbatim>\<open>TypeError\<close>.
\<close>

fun parse_metadata ::
  "(string \<Rightarrow> string) \<Rightarrow> string list \<Rightarrow> (string \<rightharpoonup> string) \<Rightarrow> js_error + (string \<rightharpoonup> string)" where
  "parse_metadata decode [] obj = Inr obj"
| "parse_metadata decode (item # items) obj =
     (case key_value item of
        (key, None) \<Rightarrow> Inl InvalidArgType
      | (key, Some v) \<Rightarrow> parse_metadata decode items (obj_set obj key (decode v)))"

definition fallback_name :: "nat \<Rightarrow> string" where
  "fallback_name now = ''file-'' @ decimal now"

text \<open>
  \<^verbatim>\<open>namingFunction\<close>, on the value of the \<^verbatim>\<open>Upload-Metadata\<close> header (\<open>None\<close> when the
  request has none) and the clock \<^verbatim>\<open>Date.now()\<close>.
\<close>

definition namingFunction ::
  "(string \<Rightarrow> string) \<Rightarrow> nat \<Rightarrow> string option \<Rightarrow> js_error + string" where
  "namingFunction decode now header =
     (case header of
        None \<Rightarrow> Inr (fallback_name now)
      | Some metadata \<Rightarrow>
          if metadata = [] then Inr (fallback_name now)
          else
            (case parse_metadata decode (split_on CHR '','' metadata) Map.empty of
               Inl e \<Rightarrow> Inl e
             | Inr metadataObj \<Rightarrow>
                 (case metadataObj ''filename'' of
                    None \<Rightarrow> Inr (fallback_name now)
                  | Some v \<Rightarrow> if v = [] then Inr (fallback_name now) else Inr v)))"

text \<open>
  A base64 decoder for evaluation: characters outside the alphabet are passed over and
  the input ends at the first padding character. It decodes canonical base64 of UTF-8
  text as Node does.
\<close>

definition b64_value :: "char \<Rightarrow> nat option" where
  "b64_value c =
     (let n = (of_char c :: nat) in
      if 65 \<le> n \<and> n \<le> 90 then Some (n - 65)
      else if 97 \<le> n \<and> n \<le> 122 then Some (n - 71)
      else if 48 \<le> n \<and> n \<le> 57 then Some (n + 4)
      else if c = CHR ''+'' \<or> c = CHR ''-'' then Some 62
      else if c = CHR ''/'' \<or> c = CHR ''_'' then Some 63
      else None)"

fun b64_bytes :: "nat list \<Rightarrow> nat list" where
  "b64_bytes (a # b # c # d # rest) =
     [a * 4 + b div 16, (b mod 16) * 16 + c div 4, (c mod 4) * 64 + d] @ b64_bytes rest"
| "b64_bytes [a, b, c] = [a * 4 + b div 16, (b mod 16) * 16 + c div 4]"
| "b64_bytes [a, b] = [a * 4 + b div 16]"
| "b64_bytes _ = []"

definition base64_utf8 :: "string \<Rightarrow> string" where
  "base64_utf8 s =
     map char_of (b64_bytes (List.map_filter b64_value (takeWhile (\<lambda>c. c \<noteq> CHR ''='') s)))"

section \<open>The upload gateway\<close>

text \<open>
  \<^verbatim>\<open>tusServer.handle(req, res)\<close> belongs to the upload engine. It is a parameter: it
  leaves the response in some state, and its promise resolves, rejects with an
  \<^verbatim>\<open>Error\<close>, or stays pending.
\<close>

datatype settled = Resolved | Rejected js_error | Pending

text \<open>\<^verbatim>\<open>app.use('/files', ...)\<close>.\<close>

definition tus_handler :: "('req \<Rightarrow> response \<Rightarrow> response \<times> settled) \<Rightarrow> 'req \<Rightarrow> response" where
  "tus_handler handle req =
     (case handle req fresh of
        (res, Resolved) \<Rightarrow>
          if \<not> headersSent res
          then send_json (JsonError ''Not found'') (set_status 404 res)
          else res
      | (res, Rejected error) \<Rightarrow>
          if \<not> headersSent res
          then send_json (JsonErrorDetails ''Internal server error'' (message error))
                 (set_status 500 res)
          else res
      | (res, Pending) \<Rightarrow> res)"


section \<open>Notions used in the statements\<close>

text \<open>A path that resolves to a regular file.\<close>

definition is_regular_file :: "filesystem \<Rightarrow> path \<Rightarrow> bool" where
  "is_regular_file fs p = (case node_at fs p of Inr (File bytes t) \<Rightarrow> True | _ \<Rightarrow> False)"

text \<open>The directory \<open>dir\<close> has an entry of the name \<open>n\<close>, and it is a regular file.\<close>

definition regular_entry :: "string list \<Rightarrow> filesystem \<Rightarrow> string \<Rightarrow> bool" where
  "regular_entry dir fs n =
     (valid_name n \<and> (case map_of fs (dir @ [n]) of Some (File bytes t) \<Rightarrow> True | _ \<Rightarrow> False))"

text \<open>An item of the header with a value part, and a header all of whose items have one.\<close>

definition has_value :: "string \<Rightarrow> bool" where
  "has_value item = (case key_value item of (key, None) \<Rightarrow> False | (key, Some v) \<Rightarrow> True)"

definition all_have_value :: "string \<Rightarrow> bool" where
  "all_have_value metadata = list_all has_value (split_on CHR '','' metadata)"

text \<open>
  The pairs of a header in their order as the code takes them from the items
  (\<open>key_value\<close>), each value decoded, and the value of the last pair with a given key.
\<close>

definition code_pair :: "(string \<Rightarrow> string) \<Rightarrow> string \<Rightarrow> string \<times> string" where
  "code_pair decode item =
     (case key_value item of (key, None) \<Rightarrow> (key, []) | (key, Some v) \<Rightarrow> (key, decode v))"

definition code_pairs :: "(string \<Rightarrow> string) \<Rightarrow> string \<Rightarrow> (string \<times> string) list" where
  "code_pairs decode metadata = map (code_pair decode) (split_on CHR '','' metadata)"

definition last_value :: "(string \<times> string) list \<Rightarrow> string \<Rightarrow> string option" where
  "last_value pairs key = map_of (rev pairs) key"

text \<open>
  The mapping of the specification, from its words: the header is split on commas; each
  pair is split on its first space into the key and the encoded value, which is decoded;
  the last occurrence of a repeated key wins. An item with no space has no value to
  decode and is passed over.
\<close>

definition spec_pair :: "(string \<Rightarrow> string) \<Rightarrow> string \<Rightarrow> (string \<times> string) option" where
  "spec_pair decode item =
     (if CHR '' '' \<in> set item
      then Some (takeWhile (\<lambda>c. c \<noteq> CHR '' '') item,
                 decode (tl (dropWhile (\<lambda>c. c \<noteq> CHR '' '') item)))
      else None)"

definition spec_mapping :: "(string \<Rightarrow> string) \<Rightarrow> string \<Rightarrow> (string \<rightharpoonup> string)" where
  "spec_mapping decode metadata =
     map_of (rev (List.map_filter (spec_pair decode) (split_on CHR '','' metadata)))"

text \<open>
  An item that is a key, one space and a value, and a header all of whose items are.
\<close>

definition one_space :: "string \<Rightarrow> bool" where
  "one_space item = (length (filter (\<lambda>c. c = CHR '' '') item) = 1)"

definition all_one_space :: "string \<Rightarrow> bool" where
  "all_one_space metadata = list_all one_space (split_on CHR '','' metadata)"

section \<open>An example installation\<close>

text \<open>
  The server installed in \<^verbatim>\<open>/srv/app\<close>. Its upload directory holds a finished upload
  \<^verbatim>\<open>video.mp4\<close> with both bookkeeping files, a file \<^verbatim>\<open>report.json\<close> with no file
  \<^verbatim>\<open>report\<close>, a progress file \<^verbatim>\<open>ghost.info\<close> with no file \<^verbatim>\<open>ghost\<close>, two directories
  \<^verbatim>\<open>docs\<close> and \<^verbatim>\<open>archive.json\<close>, and a file \<^verbatim>\<open>clip\<close> beside a directory \<^verbatim>\<open>clip.info\<close>.
\<close>

definition ex_dir :: "string list" where
  "ex_dir = uploadsDir [''srv'', ''app'']"

definition ex_fs :: filesystem where
  "ex_fs =
     [([''srv''], Dir),
      ([''srv'', ''app''], Dir),
      ([''srv'', ''app'', ''server.js''], File ''listen'' 1),
      ([''srv'', ''app'', ''uploads''], Dir),
      ([''srv'', ''app'', ''uploads'', ''video.mp4''], File ''abc'' 7),
      ([''srv'', ''app'', ''uploads'', ''video.mp4.info''], File ''i'' 7),
      ([''srv'', ''app'', ''uploads'', ''video.mp4.json''], File ''{}'' 7),
      ([''srv'', ''app'', ''uploads'', ''report.json''], File ''[1]'' 8),
      ([''srv'', ''app'', ''uploads'', ''ghost.info''], File ''g'' 9),
      ([''srv'', ''app'', ''uploads'', ''docs''], Dir),
      ([''srv'', ''app'', ''uploads'', ''archive.json''], Dir),
      ([''srv'', ''app'', ''uploads'', ''clip''], File ''xy'' 10),
      ([''srv'', ''app'', ''uploads'', ''clip.info''], Dir)]"

text \<open>The same after \<^verbatim>\<open>video.mp4\<close> and its two bookkeeping files were removed.\<close>

definition ex_fs_deleted :: filesystem where
  "ex_fs_deleted =
     [([''srv''], Dir),
      ([''srv'', ''app''], Dir),
      ([''srv'', ''app'', ''server.js''], File ''listen'' 1),
      ([''srv'', ''app'', ''uploads''], Dir),
      ([''srv'', ''app'', ''uploads'', ''report.json''], File ''[1]'' 8),
      ([''srv'', ''app'', ''uploads'', ''ghost.info''], File ''g'' 9),
      ([''srv'', ''app'', ''uploads'', ''docs''], Dir),
      ([''srv'', ''app'', ''uploads'', ''archive.json''], Dir),
      ([''srv'', ''app'', ''uploads'', ''clip''], File ''xy'' 10),
      ([''srv'', ''app'', ''uploads'', ''clip.info''], Dir)]"

text \<open>The example after a file \<^verbatim>\<open>report\<close> was uploaded.\<close>

definition ex_fs_report :: filesystem where
  "ex_fs_report = ex_fs @ [([''srv'', ''app'', ''uploads'', ''report''], File ''pdf'' 11)]"

text \<open>The example with a bookkeeping file \<^verbatim>\<open>clip.json\<close> beside \<^verbatim>\<open>clip\<close>.\<close>

definition ex_fs_clip :: filesystem where
  "ex_fs_clip = ex_fs @ [([''srv'', ''app'', ''uploads'', ''clip.json''], File ''{}'' 10)]"

text \<open>
  An upload directory with one file, whose name starts with the byte \<^verbatim>\<open>0xFF\<close> and is
  not UTF-8.
\<close>

definition ex_fs_raw :: filesystem where
  "ex_fs_raw =
     [([''srv''], Dir),
      ([''srv'', ''app''], Dir),
      ([''srv'', ''app'', ''uploads''], Dir),
      ([''srv'', ''app'', ''uploads'', CHR 0xFF # ''.json''], File ''{}'' 12)]"

text \<open>
  Three upload engines: one that returns without answering, one whose promise rejects
  before anything was sent, and one that answers 204 itself.
\<close>

definition engine_silent :: "unit \<Rightarrow> response \<Rightarrow> response \<times> settled" where
  "engine_silent req res = (res, Resolved)"

definition engine_failing :: "unit \<Rightarrow> response \<Rightarrow> response \<times> settled" where
  "engine_failing req res = (res, Rejected (Error ''disk full''))"

definition engine_answering :: "unit \<Rightarrow> response \<Rightarrow> response \<times> settled" where
  "engine_answering req res = (res\<lparr>status := 204, headersSent := True\<rparr>, Resolved)"


section \<open>Basic facts\<close>

lemmas ex_simps =
  ex_dir_def ex_fs_def uploadsDir_def path_join_def path_plus_def path_string_def
  dir_path_def node_at_def existsSync_def statSync_def unlinkSync_def unlink_if_exists_def
  readdirSync_def entry_names_def decodeURIComponent_def delete_file_handler_def
  not_found_def server_error_def deleted_ok_def send_json_def set_status_def fresh_def

lemmas list_simps =
  list_files_handler_def list_files_at_def keep_file_def endsWith_def slice_off5_def
  describe_file_def listed_names_def

lemmas naming_simps =
  namingFunction_def key_value_def obj_set_def fallback_name_def decimal.simps
  base64_utf8_def b64_value_def char_of_def bit_Suc_0_iff

lemma wf_ex_fs: "wf_fs ex_fs"
  by (simp add: wf_fs_def ex_fs_def valid_name_def)

lemma wf_ex_fs_report: "wf_fs ex_fs_report"
  by (simp add: wf_fs_def ex_fs_report_def ex_fs_def valid_name_def)

lemma split_on_no_sep: "sep \<notin> set s \<Longrightarrow> split_on sep s = [s]"
  by (induction s) auto

lemma split_on_nonempty: "split_on sep s \<noteq> []"
  by (induction s) (auto split: list.splits)


lemma split_on_append:
  "split_on sep (a @ sep # b) = split_on sep a @ split_on sep b"
proof (induction a)
  case Nil
  then show ?case by simp
next
  case (Cons c a)
  obtain x xs where "split_on sep a = x # xs"
    using split_on_nonempty [of sep a] by (cases "split_on sep a") auto
  with Cons show ?case by simp
qed


text \<open>
A name of a directory entry resolves to the entry of that name in the directory.
\<close>

lemma path_join_valid_name:
  "valid_name f \<Longrightarrow> path_join dir f = \<lparr>segs = dir @ [f], trailing = False\<rparr>"
proof -
  assume v: "valid_name f"
  then have "f \<noteq> []" and "CHR ''/'' \<notin> set f" and "f \<noteq> ''.''" and "f \<noteq> ''..''"
    by (simp_all add: valid_name_def)
  moreover from this have "last f \<noteq> CHR ''/''"
    by (metis last_in_set)
  ultimately show ?thesis
    by (simp add: path_join_def split_on_no_sep)
qed

lemma map_of_filter_key:
  "map_of (filter (\<lambda>(k, n). k \<noteq> p) fs) q = (if q = p then None else map_of fs q)"
  by (induction fs) auto

lemma filter_absent_key:
  "map_of fs p = None \<Longrightarrow> filter (\<lambda>(k, n). k \<noteq> p) fs = fs"
  by (induction fs) (auto split: if_splits)

lemma exists_stat: "existsSync fs p \<Longrightarrow> \<exists>st. statSync fs p = Inr st"
  by (auto simp: existsSync_def statSync_def split: sum.splits node.splits)


lemma stat_isFile:
  "statSync fs p = Inr st \<Longrightarrow> isFile st = is_regular_file fs p"
  by (auto simp: statSync_def is_regular_file_def split: sum.splits node.splits)

section \<open>Deleting: the error paths\<close>

text \<open>
  C1, as the code has it. The handler guards the deletion with \<^verbatim>\<open>fs.existsSync\<close> only.
  When the decoded name resolves to no entry, the answer is 404 with the body
  \<^verbatim>\<open>{error: "File not found"}\<close> and the file system is unchanged, whatever like-named
  \<^verbatim>\<open>.info\<close> or \<^verbatim>\<open>.json\<close> entries there are. When it resolves to a directory, the guard
  lets it pass, \<^verbatim>\<open>unlinkSync\<close> throws \<^verbatim>\<open>EISDIR\<close>, and the answer is 500 with that
  message, not 404; the file system is unchanged in this case too.
\<close>

theorem delete_missing_or_directory:
  assumes "decodeURIComponent param = Inr filename"
  shows "(\<not> existsSync fs (path_join dir filename) \<longrightarrow>
            delete_file_handler dir fs param = (not_found, fs)) \<and>
         (node_at fs (path_join dir filename) = Inr Dir \<longrightarrow>
            delete_file_handler dir fs param =
              (server_error (SystemError EISDIR ''unlink'' (path_string (path_join dir filename))), fs)) \<and>
         status not_found = 404 \<and> body not_found = JsonError ''File not found'' \<and>
         (\<forall>e. status (server_error e) = 500 \<and> body (server_error e) = JsonError (message e))"
  using assms
  by (simp add: delete_file_handler_def existsSync_def unlinkSync_def not_found_def server_error_def
      send_json_def set_status_def fresh_def)

text \<open>
  In the example: \<^verbatim>\<open>ghost\<close> is missing while \<^verbatim>\<open>ghost.info\<close> exists, and \<^verbatim>\<open>docs\<close> is a
  directory.
\<close>

theorem delete_missing_or_directory_witness:
  "decodeURIComponent ''ghost'' = Inr ''ghost'' \<and>
   \<not> existsSync ex_fs (path_join ex_dir ''ghost'') \<and>
   existsSync ex_fs (path_plus (path_join ex_dir ''ghost'') ''.info'') \<and>
   delete_file_handler ex_dir ex_fs ''ghost'' = (not_found, ex_fs) \<and>
   decodeURIComponent ''docs'' = Inr ''docs'' \<and>
   node_at ex_fs (path_join ex_dir ''docs'') = Inr Dir \<and>
   snd (delete_file_handler ex_dir ex_fs ''docs'') = ex_fs \<and>
   status (fst (delete_file_handler ex_dir ex_fs ''docs'')) = 500"
proof -
  have d1: "decodeURIComponent ''ghost'' = Inr ''ghost''"
    by (simp add: decodeURIComponent_def)
  have d2: "decodeURIComponent ''docs'' = Inr ''docs''"
    by (simp add: decodeURIComponent_def)
  have m: "\<not> existsSync ex_fs (path_join ex_dir ''ghost'')"
    by (simp add: ex_simps)
  have a: "existsSync ex_fs (path_plus (path_join ex_dir ''ghost'') ''.info'')"
    by (simp add: ex_simps)
  have n: "node_at ex_fs (path_join ex_dir ''docs'') = Inr Dir"
    by (simp add: ex_simps)
  show ?thesis
    using d1 d2 m a n
      delete_missing_or_directory [OF d1, of ex_fs ex_dir]
      delete_missing_or_directory [OF d2, of ex_fs ex_dir]
    by simp
qed

text \<open>
  C1 as stated fails on a directory: \<^verbatim>\<open>DELETE /api/files/docs\<close> is answered 500, not 404.
\<close>

theorem delete_directory_counterexample:
  "decodeURIComponent ''docs'' = Inr ''docs'' \<and>
   node_at ex_fs (path_join ex_dir ''docs'') = Inr Dir \<and>
   status (fst (delete_file_handler ex_dir ex_fs ''docs'')) = 500 \<and>
   status (fst (delete_file_handler ex_dir ex_fs ''docs'')) \<noteq> 404 \<and>
   body (fst (delete_file_handler ex_dir ex_fs ''docs'')) =
     JsonError (message (SystemError EISDIR ''unlink'' ''/srv/app/uploads/docs''))"
  by (simp add: ex_simps)




section \<open>What a listing can contain\<close>

lemma filter_files_kept:
  "filter_files dir fs names = Inr kept \<Longrightarrow> f \<in> set kept \<Longrightarrow>
     f \<in> set names \<and> keep_file dir fs f = Inr True"
proof (induction names arbitrary: kept)
  case Nil
  then show ?case by simp
next
  case (Cons a names)
  then show ?case
    by (auto split: sum.splits if_splits)
qed

lemma map_files_names: "map_files dir fs kept = Inr ds \<Longrightarrow> map name ds = kept"
proof (induction kept arbitrary: ds)
  case Nil
  then show ?case by simp
next
  case (Cons a kept)
  then show ?case
    by (auto simp: describe_file_def Let_def split: sum.splits)
qed

text \<open>
A listed name was enumerated, and the callback of \<^verbatim>\<open>filter\<close> returned true on it.
\<close>

lemma listed_namesD:
  assumes "f \<in> set (listed_names (list_files_at dir fs_enum fs_scan))"
  shows "\<exists>names. readdirSync fs_enum (dir_path dir) = Inr names \<and> f \<in> set names \<and>
           keep_file dir fs_scan f = Inr True"
proof (cases "readdirSync fs_enum (dir_path dir)")
  case (Inl e)
  with assms show ?thesis
    by (simp add: list_files_at_def listed_names_def server_error_def send_json_def
        set_status_def fresh_def)
next
  case (Inr names)
  note rd = this
  show ?thesis
  proof (cases "filter_files dir fs_scan names")
    case (Inl e)
    with assms rd show ?thesis
      by (simp add: list_files_at_def listed_names_def server_error_def send_json_def
          set_status_def fresh_def)
  next
    case (Inr kept)
    note ff = this
    show ?thesis
    proof (cases "map_files dir fs_scan kept")
      case (Inl e)
      with assms rd ff show ?thesis
        by (simp add: list_files_at_def listed_names_def server_error_def send_json_def
            set_status_def fresh_def)
    next
      case (Inr ds)
      with assms rd ff have "f \<in> set (map name ds)"
        by (simp add: list_files_at_def listed_names_def send_json_def fresh_def)
      then have "f \<in> set kept"
        using map_files_names [OF Inr] by simp
      with filter_files_kept [OF ff] rd show ?thesis
        by simp
    qed
  qed
qed

lemma keep_file_regular:
  assumes "keep_file dir fs f = Inr True"
  shows "is_regular_file fs (path_join dir f)"
proof (cases "statSync fs (path_join dir f)")
  case (Inl e)
  with assms show ?thesis
    by (auto simp: keep_file_def split: if_splits sum.splits bool.splits)
next
  case (Inr st)
  with assms have "isFile st"
    by (auto simp: keep_file_def split: if_splits sum.splits bool.splits)
  with stat_isFile [OF Inr] show ?thesis
    by simp
qed

lemma readdir_utf8:
  assumes "readdirSync fs (dir_path dir) = Inr names"
    and "list_all utf8_name (entry_names fs dir)"
  shows "names = entry_names fs dir"
proof -
  from assms(2) have "map utf8_to_string (entry_names fs dir) = entry_names fs dir"
    by (induction "entry_names fs dir") (auto simp: utf8_name_def list_all_iff intro: map_idI)
  with assms(1) show ?thesis
    by (auto simp: readdirSync_def dir_path_def split: sum.splits node.splits)
qed

lemma readdir_entry:
  assumes "readdirSync fs (dir_path dir) = Inr names"
    and "list_all utf8_name (entry_names fs dir)"
    and "f \<in> set names"
  shows "\<exists>n. (dir @ [f], n) \<in> set fs"
proof -
  from readdir_utf8 [OF assms(1,2)] assms(3)
  have "f \<in> set (map (\<lambda>(k, n). last k) (filter (\<lambda>(k, n). k \<noteq> [] \<and> butlast k = dir) fs))"
    by (simp add: entry_names_def)
  then obtain k n where kn: "(k, n) \<in> set fs" "k \<noteq> []" "butlast k = dir" "last k = f"
    by auto
  then have "k = dir @ [f]"
    using append_butlast_last_id [of k] by simp
  with kn show ?thesis by auto
qed

lemma readdir_is_dir:
  "readdirSync fs (dir_path dir) = Inr names \<Longrightarrow> node_at fs (dir_path dir) = Inr Dir"
  by (auto simp: readdirSync_def split: sum.splits node.splits)

lemma ex_readdir:
  "readdirSync ex_fs (dir_path ex_dir) =
     Inr [''video.mp4'', ''video.mp4.info'', ''video.mp4.json'', ''report.json'', ''ghost.info'',
          ''docs'', ''archive.json'', ''clip'', ''clip.info'']"
  by (simp add: ex_simps)

lemma ex_listing:
  "listed_names (list_files_handler ex_dir ex_fs) = [''video.mp4'', ''report.json'', ''clip'']"
  by (simp add: ex_simps list_simps)

lemma ex_listing_status: "status (list_files_handler ex_dir ex_fs) = 200"
  by (simp add: ex_simps list_simps)

section \<open>Deleting a finished upload\<close>

lemma unlink_if_exists_file:
  assumes "segs p \<noteq> []" and "\<not> trailing p" and "map_of fs (segs p) \<noteq> Some Dir"
  shows "unlink_if_exists fs p = Inr (filter (\<lambda>(k, n). k \<noteq> segs p) fs)"
proof (cases "map_of fs (segs p)")
  case None
  with assms show ?thesis
    by (simp add: unlink_if_exists_def existsSync_def node_at_def filter_absent_key)
next
  case (Some n)
  with assms show ?thesis
    by (cases n) (simp_all add: unlink_if_exists_def existsSync_def node_at_def unlinkSync_def)
qed

text \<open>
  C8, as the code has it. Let \<open>filename\<close> be the name of a regular file in the upload
  directory, and let the entries \<open>filename.info\<close> and \<open>filename.json\<close> each be absent or
  a regular file.
  A delete request whose parameter decodes to \<open>filename\<close> is answered 200 with
  \<^verbatim>\<open>{message: "File deleted successfully"}\<close> and leaves the file system without these
  three entries and otherwise as it was; an absent auxiliary entry is no error. In the
  file system it leaves, no listing contains \<open>filename\<close>, and the same request is
  answered 404.
\<close>

theorem delete_removes_file_and_artifacts:
  assumes dec: "decodeURIComponent param = Inr filename"
    and nm: "valid_name filename"
    and prim: "map_of fs (dir @ [filename]) = Some (File bytes t)"
    and info: "map_of fs (dir @ [filename @ ''.info'']) \<noteq> Some Dir"
    and json: "map_of fs (dir @ [filename @ ''.json'']) \<noteq> Some Dir"
  shows "\<exists>fs'.
           fs' = filter (\<lambda>(k, n). k \<notin> {dir @ [filename], dir @ [filename @ ''.info''],
                                        dir @ [filename @ ''.json'']}) fs \<and>
           delete_file_handler dir fs param = (deleted_ok, fs') \<and>
           status deleted_ok = 200 \<and>
           body deleted_ok = JsonMessage ''File deleted successfully'' \<and>
           filename \<notin> set (listed_names (list_files_handler dir fs')) \<and>
           delete_file_handler dir fs' param = (not_found, fs')"
proof -
  let ?p = "path_join dir filename"
  let ?fs1 = "filter (\<lambda>(k, n). k \<noteq> dir @ [filename]) fs"
  let ?fs2 = "filter (\<lambda>(k, n). k \<noteq> dir @ [filename @ ''.info'']) ?fs1"
  let ?fs3 = "filter (\<lambda>(k, n). k \<noteq> dir @ [filename @ ''.json'']) ?fs2"
  let ?fs' = "filter (\<lambda>(k, n). k \<notin> {dir @ [filename], dir @ [filename @ ''.info''],
                                        dir @ [filename @ ''.json'']}) fs"
  have p: "?p = \<lparr>segs = dir @ [filename], trailing = False\<rparr>"
    using nm by (rule path_join_valid_name)
  have pi: "path_plus ?p ''.info'' = \<lparr>segs = dir @ [filename @ ''.info''], trailing = False\<rparr>"
    and pj: "path_plus ?p ''.json'' = \<lparr>segs = dir @ [filename @ ''.json''], trailing = False\<rparr>"
    by (simp_all add: p path_plus_def)
  have ex: "existsSync fs ?p"
    using prim by (simp add: p existsSync_def node_at_def)
  have u1: "unlinkSync fs ?p = Inr ?fs1"
    using prim by (simp add: p unlinkSync_def node_at_def)
  have i1: "map_of ?fs1 (dir @ [filename @ ''.info'']) \<noteq> Some Dir"
    using info by (simp add: map_of_filter_key)
  have u2: "unlink_if_exists ?fs1 (path_plus ?p ''.info'') = Inr ?fs2"
    using i1 unlink_if_exists_file [of "path_plus ?p ''.info''" ?fs1] by (simp add: pi)
  have j1: "map_of ?fs2 (dir @ [filename @ ''.json'']) \<noteq> Some Dir"
    using json by (simp add: map_of_filter_key del: filter_filter)
  have u3: "unlink_if_exists ?fs2 (path_plus ?p ''.json'') = Inr ?fs3"
    using j1 unlink_if_exists_file [of "path_plus ?p ''.json''" ?fs2] by (simp add: pj)
  have eq: "?fs3 = ?fs'"
    by (induction fs) auto
  have del: "delete_file_handler dir fs param = (deleted_ok, ?fs')"
    using dec ex u1 u2 u3 eq by (simp add: delete_file_handler_def)
  have gone: "map_of ?fs' (dir @ [filename]) = None"
    unfolding eq [symmetric] by (simp add: map_of_filter_key del: filter_filter)
  have nl: "filename \<notin> set (listed_names (list_files_handler dir ?fs'))"
  proof
    assume "filename \<in> set (listed_names (list_files_handler dir ?fs'))"
    then have "keep_file dir ?fs' filename = Inr True"
      unfolding list_files_handler_def using listed_namesD by blast
    then have "is_regular_file ?fs' (path_join dir filename)"
      by (rule keep_file_regular)
    with gone show False
      by (simp add: p is_regular_file_def node_at_def)
  qed
  have again: "delete_file_handler dir ?fs' param = (not_found, ?fs')"
    using dec gone by (simp add: delete_file_handler_def p existsSync_def node_at_def)
  show ?thesis
    using del nl again by (simp add: deleted_ok_def send_json_def fresh_def)
qed

text \<open>
In the example, for \<^verbatim>\<open>video.mp4\<close>, which is listed before the request.
\<close>

theorem delete_removes_file_and_artifacts_witness:
  "decodeURIComponent ''video.mp4'' = Inr ''video.mp4'' \<and>
   valid_name ''video.mp4'' \<and>
   map_of ex_fs (ex_dir @ [''video.mp4'']) = Some (File ''abc'' 7) \<and>
   map_of ex_fs (ex_dir @ [''video.mp4'' @ ''.info'']) = Some (File ''i'' 7) \<and>
   map_of ex_fs (ex_dir @ [''video.mp4'' @ ''.json'']) = Some (File ''{}'' 7) \<and>
   ''video.mp4'' \<in> set (listed_names (list_files_handler ex_dir ex_fs)) \<and>
   delete_file_handler ex_dir ex_fs ''video.mp4'' = (deleted_ok, ex_fs_deleted) \<and>
   ''video.mp4'' \<notin> set (listed_names (list_files_handler ex_dir ex_fs_deleted)) \<and>
   delete_file_handler ex_dir ex_fs_deleted ''video.mp4'' = (not_found, ex_fs_deleted)"
proof -
  have d: "decodeURIComponent ''video.mp4'' = Inr ''video.mp4''"
    by (simp add: decodeURIComponent_def)
  have v: "valid_name ''video.mp4''"
    by (simp add: valid_name_def)
  have p: "map_of ex_fs (ex_dir @ [''video.mp4'']) = Some (File ''abc'' 7)"
    by (simp add: ex_simps)
  have i: "map_of ex_fs (ex_dir @ [''video.mp4'' @ ''.info'']) = Some (File ''i'' 7)"
    by (simp add: ex_simps)
  have j: "map_of ex_fs (ex_dir @ [''video.mp4'' @ ''.json'']) = Some (File ''{}'' 7)"
    by (simp add: ex_simps)
  have f: "filter (\<lambda>(k, n). k \<notin> {ex_dir @ [''video.mp4''], ex_dir @ [''video.mp4'' @ ''.info''],
                                   ex_dir @ [''video.mp4'' @ ''.json'']}) ex_fs = ex_fs_deleted"
    by (simp add: ex_simps ex_fs_deleted_def)
  have l: "''video.mp4'' \<in> set (listed_names (list_files_handler ex_dir ex_fs))"
    by (simp add: ex_listing)
  have "map_of ex_fs (ex_dir @ [''video.mp4'' @ ''.info'']) \<noteq> Some Dir"
    and "map_of ex_fs (ex_dir @ [''video.mp4'' @ ''.json'']) \<noteq> Some Dir"
    by (simp_all only: i j) simp_all
  from delete_removes_file_and_artifacts [OF d v p this] d v p i j l show ?thesis
    by (simp only: f) simp
qed

text \<open>
  C8 as stated fails when an auxiliary entry exists and cannot be unlinked. Beside the
  regular file \<^verbatim>\<open>clip\<close> there are the directory \<^verbatim>\<open>clip.info\<close> and the file \<^verbatim>\<open>clip.json\<close>:
  the delete of \<^verbatim>\<open>clip\<close> is answered 500, and both auxiliary entries are still there.
\<close>

theorem delete_leaves_artifacts_counterexample:
  "decodeURIComponent ''clip'' = Inr ''clip'' \<and>
   map_of ex_fs_clip [''srv'', ''app'', ''uploads'', ''clip''] = Some (File ''xy'' 10) \<and>
   map_of ex_fs_clip [''srv'', ''app'', ''uploads'', ''clip.info''] = Some Dir \<and>
   map_of ex_fs_clip [''srv'', ''app'', ''uploads'', ''clip.json''] = Some (File ''{}'' 10) \<and>
   status (fst (delete_file_handler ex_dir ex_fs_clip ''clip'')) = 500 \<and>
   fst (delete_file_handler ex_dir ex_fs_clip ''clip'') \<noteq> deleted_ok \<and>
   map_of (snd (delete_file_handler ex_dir ex_fs_clip ''clip''))
     [''srv'', ''app'', ''uploads'', ''clip.info''] = Some Dir \<and>
   map_of (snd (delete_file_handler ex_dir ex_fs_clip ''clip''))
     [''srv'', ''app'', ''uploads'', ''clip.json''] = Some (File ''{}'' 10)"
  by (simp add: ex_simps ex_fs_clip_def)

section \<open>Listing: progress files\<close>

lemma info_not_kept: "endsWith file ''.info'' \<Longrightarrow> keep_file dir fs file = Inr False"
  by (simp add: keep_file_def)

text \<open>
  C9. A name that ends with \<^verbatim>\<open>.info\<close> is in no listing, whatever the directory holds
  when it is enumerated and when its entries are examined, and whether or not a file
  of the name without the suffix exists.
\<close>

theorem info_entries_never_listed:
  "endsWith file ''.info'' \<Longrightarrow> file \<notin> set (listed_names (list_files_at dir fs_enum fs_scan))"
proof
  assume i: "endsWith file ''.info''"
    and l: "file \<in> set (listed_names (list_files_at dir fs_enum fs_scan))"
  from listed_namesD [OF l] have "keep_file dir fs_scan file = Inr True"
    by blast
  with info_not_kept [OF i] show False
    by simp
qed

text \<open>
  In the example \<^verbatim>\<open>video.mp4.info\<close> has its primary file and \<^verbatim>\<open>ghost.info\<close> has none;
  the listing succeeds and has neither.
\<close>

theorem info_entries_never_listed_witness:
  "endsWith ''video.mp4.info'' ''.info'' \<and> endsWith ''ghost.info'' ''.info'' \<and>
   readdirSync ex_fs (dir_path ex_dir) =
     Inr [''video.mp4'', ''video.mp4.info'', ''video.mp4.json'', ''report.json'', ''ghost.info'',
          ''docs'', ''archive.json'', ''clip'', ''clip.info''] \<and>
   status (list_files_at ex_dir ex_fs ex_fs) = 200 \<and>
   ''video.mp4.info'' \<notin> set (listed_names (list_files_at ex_dir ex_fs ex_fs)) \<and>
   ''ghost.info'' \<notin> set (listed_names (list_files_at ex_dir ex_fs ex_fs))"
proof -
  have a: "endsWith ''video.mp4.info'' ''.info''" and b: "endsWith ''ghost.info'' ''.info''"
    by (simp_all add: endsWith_def)
  have s: "status (list_files_at ex_dir ex_fs ex_fs) = 200"
    using ex_listing_status by (simp add: list_files_handler_def)
  show ?thesis
    using a b s ex_readdir
      info_entries_never_listed [OF a, of ex_dir ex_fs ex_fs]
      info_entries_never_listed [OF b, of ex_dir ex_fs ex_fs]
    by simp
qed

section \<open>Listing: an entry that disappears\<close>






section \<open>Listing: sidecar files\<close>

lemma wf_entry:
  assumes "wf_fs fs" and "(k, n) \<in> set fs"
  shows "k \<noteq> [] \<and> list_all valid_name k \<and> (butlast k = [] \<or> map_of fs (butlast k) = Some Dir)"
  using assms by (auto simp: wf_fs_def list_all_iff)

lemma readdir_names_wf:
  assumes wf: "wf_fs fs" and u: "list_all utf8_name (entry_names fs dir)"
    and rd: "readdirSync fs (dir_path dir) = Inr names" and f: "f \<in> set names"
  shows "valid_name f \<and> existsSync fs (path_join dir f)"
proof -
  from readdir_entry [OF rd u f] obtain n where n: "(dir @ [f], n) \<in> set fs"
    by blast
  from wf_entry [OF wf n] have v: "valid_name f"
    by simp
  from n have "map_of fs (dir @ [f]) \<noteq> None"
    by (metis map_of_eq_None_iff fst_conv image_eqI)
  with v show ?thesis
    by (auto simp: path_join_valid_name existsSync_def node_at_def)
qed

lemma keep_file_total:
  assumes "existsSync fs (path_join dir f)"
  shows "keep_file dir fs f =
           Inr (\<not> endsWith f ''.info'' \<and>
                \<not> (endsWith f ''.json'' \<and> is_regular_file fs (path_join dir (slice_off5 f))) \<and>
                is_regular_file fs (path_join dir f))"
proof -
  obtain st where st: "statSync fs (path_join dir f) = Inr st"
    using assms exists_stat by blast
  note sf = stat_isFile [OF st]
  show ?thesis
  proof (cases "existsSync fs (path_join dir (slice_off5 f))")
    case True
    then obtain sb where sb: "statSync fs (path_join dir (slice_off5 f)) = Inr sb"
      using exists_stat by blast
    from True st sb sf stat_isFile [OF sb] show ?thesis
      by (auto simp: keep_file_def)
  next
    case False
    then have "\<not> is_regular_file fs (path_join dir (slice_off5 f))"
      by (auto simp: existsSync_def is_regular_file_def split: sum.splits)
    with False st sf show ?thesis
      by (auto simp: keep_file_def)
  qed
qed

lemma filter_files_total:
  "\<forall>f \<in> set names. existsSync fs (path_join dir f) \<Longrightarrow>
     filter_files dir fs names = Inr (filter (\<lambda>f. keep_file dir fs f = Inr True) names)"
  by (induction names) (auto simp: keep_file_total)

lemma map_files_total:
  "\<forall>f \<in> set kept. existsSync fs (path_join dir f) \<Longrightarrow> \<exists>ds. map_files dir fs kept = Inr ds"
proof (induction kept)
  case Nil
  then show ?case by simp
next
  case (Cons a kept)
  then obtain ds where "map_files dir fs kept = Inr ds"
    by auto
  moreover from Cons.prems have "existsSync fs (path_join dir a)"
    by simp
  then obtain st where "statSync fs (path_join dir a) = Inr st"
    using exists_stat by blast
  ultimately show ?case
    by (simp add: describe_file_def)
qed

text \<open>
  In a well-formed file system that nothing else changes meanwhile, the listing of a
  directory whose names are all UTF-8 succeeds, and it has the enumerated names that the
  callback keeps.
\<close>

lemma listing_total:
  assumes wf: "wf_fs fs" and u: "list_all utf8_name (entry_names fs dir)"
    and rd: "readdirSync fs (dir_path dir) = Inr names"
  shows "status (list_files_handler dir fs) = 200 \<and>
         listed_names (list_files_handler dir fs) =
           filter (\<lambda>f. keep_file dir fs f = Inr True) names"
proof -
  let ?kept = "filter (\<lambda>f. keep_file dir fs f = Inr True) names"
  have all: "\<forall>f \<in> set names. existsSync fs (path_join dir f)"
    using readdir_names_wf [OF wf u rd] by blast
  then have ff: "filter_files dir fs names = Inr ?kept"
    by (rule filter_files_total)
  from all have "\<forall>f \<in> set ?kept. existsSync fs (path_join dir f)"
    by simp
  then obtain ds where ds: "map_files dir fs ?kept = Inr ds"
    using map_files_total by blast
  from map_files_names [OF ds] rd ff ds show ?thesis
    by (simp add: list_files_handler_def list_files_at_def listed_names_def send_json_def fresh_def)
qed

lemma json_not_info: "endsWith f ''.json'' \<Longrightarrow> \<not> endsWith f ''.info''"
  by (auto simp: endsWith_def)

lemma regular_valid_name:
  "valid_name n \<Longrightarrow> is_regular_file fs (path_join dir n) = regular_entry dir fs n"
  by (auto simp: path_join_valid_name is_regular_file_def regular_entry_def node_at_def
      split: option.splits node.splits)

lemma parent_is_dir:
  assumes wf: "wf_fs fs" and d: "node_at fs (dir_path dir) = Inr Dir"
  shows "node_at fs \<lparr>segs = butlast dir, trailing = False\<rparr> = Inr Dir"
proof (cases "butlast dir = []")
  case True
  then show ?thesis by (simp add: node_at_def)
next
  case False
  then have ne: "dir \<noteq> []" by auto
  with d have "map_of fs dir = Some Dir"
    by (auto simp: node_at_def dir_path_def split: option.splits if_splits)
  then have "(dir, Dir) \<in> set fs"
    by (rule map_of_SomeD)
  from wf_entry [OF wf this] False have "map_of fs (butlast dir) = Some Dir"
    by simp
  with False show ?thesis
    by (simp add: node_at_def)
qed

text \<open>
  The check of the stripped name is the check for a regular file of that name in the
  directory, also when the stripped name is empty, \<^verbatim>\<open>.\<close> or \<^verbatim>\<open>..\<close>: these resolve to
  the upload directory and to its parent, which are directories.
\<close>

lemma base_regular:
  assumes wf: "wf_fs fs" and d: "node_at fs (dir_path dir) = Inr Dir" and v: "valid_name f"
  shows "is_regular_file fs (path_join dir (slice_off5 f)) = regular_entry dir fs (slice_off5 f)"
proof -
  let ?b = "slice_off5 f"
  have sub: "set ?b \<subseteq> set f"
    by (simp add: slice_off5_def set_take_subset)
  with v have chars: "CHR ''/'' \<notin> set ?b" "CHR 0x00 \<notin> set ?b"
    by (auto simp: valid_name_def)
  show ?thesis
  proof (cases "?b = [] \<or> ?b = ''.'' \<or> ?b = ''..''")
    case False
    with chars have "valid_name ?b"
      by (simp add: valid_name_def)
    then show ?thesis
      by (rule regular_valid_name)
  next
    case True
    then have nv: "\<not> regular_entry dir fs ?b"
      by (auto simp: regular_entry_def valid_name_def)
    from True consider "?b = []" | "?b = ''.''" | "?b = ''..''"
      by blast
    then have "node_at fs (path_join dir ?b) = Inr Dir"
    proof cases
      case 1
      with d show ?thesis by (simp add: path_join_def dir_path_def)
    next
      case 2
      with d show ?thesis by (simp add: path_join_def dir_path_def)
    next
      case 3
      with parent_is_dir [OF wf d] show ?thesis by (simp add: path_join_def)
    qed
    with nv show ?thesis
      by (simp add: is_regular_file_def)
  qed
qed

text \<open>
  C6, as the code has it. In a well-formed file system (its entries are regular files
  and directories), for an upload directory whose entry names are all well-formed UTF-8
  and that nothing else changes during the call, and for every entry of it whose name
  ends with \<^verbatim>\<open>.json\<close>: the listing succeeds, and
  it has the entry exactly when the entry is a regular file and no regular file of the
  stripped name is in the directory. The handler keeps no state: the answer is a
  function of the directory as it is at the call. An entry with such a name that is a
  directory is not listed.
\<close>

theorem json_entry_listed_iff:
  assumes wf: "wf_fs fs"
    and u: "list_all utf8_name (entry_names fs dir)"
    and rd: "readdirSync fs (dir_path dir) = Inr names"
    and f: "file \<in> set names"
    and j: "endsWith file ''.json''"
  shows "status (list_files_handler dir fs) = 200 \<and>
         (file \<in> set (listed_names (list_files_handler dir fs)) \<longleftrightarrow>
            regular_entry dir fs file \<and> \<not> regular_entry dir fs (slice_off5 file))"
proof -
  from readdir_names_wf [OF wf u rd f] have v: "valid_name file"
    and e: "existsSync fs (path_join dir file)"
    by simp_all
  have k: "keep_file dir fs file = Inr True \<longleftrightarrow>
             regular_entry dir fs file \<and> \<not> regular_entry dir fs (slice_off5 file)"
    using j json_not_info [OF j] regular_valid_name [OF v, of fs dir]
      base_regular [OF wf readdir_is_dir [OF rd] v]
    by (auto simp: keep_file_total [OF e])
  from listing_total [OF wf u rd] f k show ?thesis
    by simp
qed

text \<open>
  In the example \<^verbatim>\<open>report.json\<close> is listed while there is no \<^verbatim>\<open>report\<close>, and no longer
  once \<^verbatim>\<open>report\<close> exists; \<^verbatim>\<open>video.mp4.json\<close> is hidden.
\<close>

lemma utf8_ex_fs: "list_all utf8_name (entry_names ex_fs ex_dir)"
  by (simp add: ex_simps utf8_name_def)

lemma utf8_ex_fs_report: "list_all utf8_name (entry_names ex_fs_report ex_dir)"
  by (simp add: ex_simps ex_fs_report_def utf8_name_def)

theorem json_entry_listed_iff_witness:
  "wf_fs ex_fs \<and> wf_fs ex_fs_report \<and>
   list_all utf8_name (entry_names ex_fs ex_dir) \<and>
   list_all utf8_name (entry_names ex_fs_report ex_dir) \<and>
   endsWith ''report.json'' ''.json'' \<and>
   slice_off5 ''report.json'' = ''report'' \<and>
   regular_entry ex_dir ex_fs ''report.json'' \<and> \<not> regular_entry ex_dir ex_fs ''report'' \<and>
   ''report.json'' \<in> set (listed_names (list_files_handler ex_dir ex_fs)) \<and>
   regular_entry ex_dir ex_fs_report ''report'' \<and>
   ''report.json'' \<notin> set (listed_names (list_files_handler ex_dir ex_fs_report)) \<and>
   regular_entry ex_dir ex_fs ''video.mp4'' \<and>
   ''video.mp4.json'' \<notin> set (listed_names (list_files_handler ex_dir ex_fs))"
proof -
  let ?names = "[''video.mp4'', ''video.mp4.info'', ''video.mp4.json'', ''report.json'',
      ''ghost.info'', ''docs'', ''archive.json'', ''clip'', ''clip.info'']"
  have r2: "readdirSync ex_fs_report (dir_path ex_dir) = Inr (?names @ [''report''])"
    by (simp add: ex_simps ex_fs_report_def)
  have m1: "''report.json'' \<in> set ?names" and m2: "''report.json'' \<in> set (?names @ [''report''])"
    and m3: "''video.mp4.json'' \<in> set ?names"
    by simp_all
  have j1: "endsWith ''report.json'' ''.json''" and j3: "endsWith ''video.mp4.json'' ''.json''"
    by (simp_all add: endsWith_def)
  have s: "slice_off5 ''report.json'' = ''report''" "slice_off5 ''video.mp4.json'' = ''video.mp4''"
    by (simp_all add: slice_off5_def)
  have a: "regular_entry ex_dir ex_fs ''report.json''" "\<not> regular_entry ex_dir ex_fs ''report''"
    "regular_entry ex_dir ex_fs_report ''report''" "regular_entry ex_dir ex_fs ''video.mp4''"
    by (simp_all add: regular_entry_def valid_name_def ex_simps ex_fs_report_def)
  show ?thesis
    using wf_ex_fs wf_ex_fs_report utf8_ex_fs utf8_ex_fs_report j1 s a
      json_entry_listed_iff [OF wf_ex_fs utf8_ex_fs ex_readdir m1 j1]
      json_entry_listed_iff [OF wf_ex_fs_report utf8_ex_fs_report r2 m2 j1]
      json_entry_listed_iff [OF wf_ex_fs utf8_ex_fs ex_readdir m3 j3]
    by simp
qed

text \<open>
  A name that is not UTF-8 is outside this statement: the file system is well-formed,
  the enumeration returns the name with the replacement character, no entry has that
  name, and the listing is answered 500.
\<close>

lemma non_utf8_name_fails_listing:
  "wf_fs ex_fs_raw \<and>
   \<not> list_all utf8_name (entry_names ex_fs_raw ex_dir) \<and>
   readdirSync ex_fs_raw (dir_path ex_dir) = Inr [replacement @ ''.json''] \<and>
   status (list_files_handler ex_dir ex_fs_raw) = 500 \<and>
   listed_names (list_files_handler ex_dir ex_fs_raw) = []"
  by (simp add: wf_fs_def valid_name_def ex_fs_raw_def ex_dir_def uploadsDir_def path_join_def
      path_string_def dir_path_def node_at_def existsSync_def statSync_def readdirSync_def
      entry_names_def utf8_name_def replacement_def list_simps server_error_def send_json_def
      set_status_def fresh_def)

text \<open>
  C6 as stated fails on the directory \<^verbatim>\<open>archive.json\<close>: nothing named \<^verbatim>\<open>archive\<close>
  exists, and yet the entry is not listed.
\<close>

theorem json_directory_counterexample:
  "readdirSync ex_fs (dir_path ex_dir) =
     Inr [''video.mp4'', ''video.mp4.info'', ''video.mp4.json'', ''report.json'', ''ghost.info'',
          ''docs'', ''archive.json'', ''clip'', ''clip.info''] \<and>
   endsWith ''archive.json'' ''.json'' \<and>
   slice_off5 ''archive.json'' = ''archive'' \<and>
   \<not> existsSync ex_fs (path_join ex_dir ''archive'') \<and>
   status (list_files_handler ex_dir ex_fs) = 200 \<and>
   listed_names (list_files_handler ex_dir ex_fs) = [''video.mp4'', ''report.json'', ''clip''] \<and>
   ''archive.json'' \<notin> set (listed_names (list_files_handler ex_dir ex_fs))"
  by (simp add: ex_simps list_simps)

section \<open>Naming\<close>



lemma obj_set_filename:
  "(obj_set obj key v) ''filename'' = (if key = ''filename'' then Some v else obj ''filename'')"
  by (simp add: obj_set_def)

lemma parse_metadata_filename:
  "list_all has_value items \<Longrightarrow>
     \<exists>obj'. parse_metadata decode items obj = Inr obj' \<and>
       obj' ''filename'' =
         (case map_of (rev (map (code_pair decode) items)) ''filename'' of
            None \<Rightarrow> obj ''filename''
          | Some v \<Rightarrow> Some v)"
proof (induction items arbitrary: obj)
  case Nil
  then show ?case by simp
next
  case (Cons item items)
  then obtain key v where kv: "key_value item = (key, Some v)"
    by (cases "key_value item") (auto simp: has_value_def split: option.splits)
  from Cons.prems have rest: "list_all has_value items"
    by simp
  from Cons.IH [OF rest, of "obj_set obj key (decode v)"] obtain obj' where
    p: "parse_metadata decode items (obj_set obj key (decode v)) = Inr obj'"
    and f: "obj' ''filename'' =
         (case map_of (rev (map (code_pair decode) items)) ''filename'' of
            None \<Rightarrow> (obj_set obj key (decode v)) ''filename''
          | Some v \<Rightarrow> Some v)"
    by blast
  have dp: "code_pair decode item = (key, decode v)"
    using kv by (simp add: code_pair_def)
  have "obj' ''filename'' =
      (case map_of (rev (map (code_pair decode) (item # items))) ''filename'' of
         None \<Rightarrow> obj ''filename''
       | Some v \<Rightarrow> Some v)"
    unfolding f by (simp add: dp map_add_def obj_set_filename split: option.splits)
  with kv p show ?case
    by simp
qed

text \<open>
  The name for a header all of whose items have a value: the value of the last
  \<^verbatim>\<open>filename\<close> pair, unless it is empty.
\<close>

lemma naming_result:
  assumes "metadata \<noteq> []" and "all_have_value metadata"
  shows "namingFunction decode now (Some metadata) =
           (case last_value (code_pairs decode metadata) ''filename'' of
              None \<Rightarrow> Inr (fallback_name now)
            | Some v \<Rightarrow> if v = [] then Inr (fallback_name now) else Inr v)"
proof -
  from assms(2) obtain obj' where
    "parse_metadata decode (split_on CHR '','' metadata) Map.empty = Inr obj'"
    and "obj' ''filename'' = last_value (code_pairs decode metadata) ''filename''"
    using parse_metadata_filename [of "split_on CHR '','' metadata" decode Map.empty]
    by (auto simp: all_have_value_def last_value_def code_pairs_def split: option.splits)
  with assms(1) show ?thesis
    by (simp add: namingFunction_def)
qed

lemma key_value_pair:
  "CHR '' '' \<notin> set k \<Longrightarrow> CHR '' '' \<notin> set v \<Longrightarrow> key_value (k @ CHR '' '' # v) = (k, Some v)"
  by (simp add: key_value_def split_on_append split_on_no_sep)







lemma one_space_split:
  assumes "one_space item"
  shows "CHR '' '' \<in> set item \<and>
         key_value item =
           (takeWhile (\<lambda>c. c \<noteq> CHR '' '') item,
            Some (tl (dropWhile (\<lambda>c. c \<noteq> CHR '' '') item)))"
proof -
  define k where "k = takeWhile (\<lambda>c. c \<noteq> CHR '' '') item"
  define d where "d = dropWhile (\<lambda>c. c \<noteq> CHR '' '') item"
  define v where "v = tl d"
  have mem: "CHR '' '' \<in> set item"
  proof (rule ccontr)
    assume "CHR '' '' \<notin> set item"
    then have "filter (\<lambda>c. c = CHR '' '') item = []"
      by (auto simp: filter_empty_conv)
    with assms show False
      by (simp add: one_space_def)
  qed
  then have dne: "d \<noteq> []"
    by (simp add: d_def dropWhile_eq_Nil_conv)
  then have "hd d = CHR '' ''"
    unfolding d_def using hd_dropWhile [of "\<lambda>c. c \<noteq> CHR '' ''" item] by blast
  with dne have dv: "d = CHR '' '' # v"
    unfolding v_def by (cases d) simp_all
  have "k @ d = item"
    unfolding k_def d_def by (rule takeWhile_dropWhile_id)
  then have split: "item = k @ CHR '' '' # v"
    unfolding dv by (rule sym)
  have kk: "CHR '' '' \<notin> set k"
    unfolding k_def by (auto dest: set_takeWhileD)
  then have fk: "filter (\<lambda>c. c = CHR '' '') k = []"
    by (auto simp: filter_empty_conv)
  from assms have "length (filter (\<lambda>c. c = CHR '' '') (k @ CHR '' '' # v)) = 1"
    unfolding one_space_def split [symmetric] .
  with fk have "filter (\<lambda>c. c = CHR '' '') v = []"
    by simp
  then have vv: "CHR '' '' \<notin> set v"
    by (auto simp: filter_empty_conv)
  have "key_value (k @ CHR '' '' # v) = (k, Some v)"
    using kk vv by (rule key_value_pair)
  then have "key_value item = (k, Some v)"
    unfolding split [symmetric] .
  with mem show ?thesis
    unfolding k_def v_def d_def by blast
qed

lemma one_space_pairs:
  "list_all one_space items \<Longrightarrow>
     list_all has_value items \<and>
     List.map_filter (spec_pair decode) items = map (code_pair decode) items"
proof (induction items)
  case Nil
  then show ?case by (simp add: List.map_filter_simps)
next
  case (Cons item items)
  then have o: "one_space item" and rest: "list_all one_space items"
    by simp_all
  from one_space_split [OF o] have "has_value item"
    and "spec_pair decode item = Some (code_pair decode item)"
    by (simp_all add: has_value_def spec_pair_def code_pair_def)
  with Cons.IH [OF rest] show ?case
    by (simp add: List.map_filter_simps)
qed

lemma naming_spec_result:
  assumes "metadata \<noteq> []" and "all_one_space metadata"
  shows "namingFunction decode now (Some metadata) =
           (case spec_mapping decode metadata ''filename'' of
              None \<Rightarrow> Inr (fallback_name now)
            | Some v \<Rightarrow> if v = [] then Inr (fallback_name now) else Inr v)"
proof -
  from assms(2) have o: "list_all one_space (split_on CHR '','' metadata)"
    by (simp add: all_one_space_def)
  from one_space_pairs [OF o, of decode] have a: "all_have_value metadata"
    and m: "spec_mapping decode metadata ''filename'' =
              last_value (code_pairs decode metadata) ''filename''"
    by (simp_all add: all_have_value_def spec_mapping_def last_value_def code_pairs_def)
  from naming_result [OF assms(1) a, of decode now] show ?thesis
    unfolding m .
qed

text \<open>
  C7, as the code has it, for every decoder of the values. Without a header, and on
  an empty one, the name is \<^verbatim>\<open>file-\<close> followed by the clock in decimal. On a header all
  of whose pairs are a key, one space and a value, the code's split and the first-space
  split of the specification agree, and the name is the value that the mapping of the
  specification has for the key \<^verbatim>\<open>filename\<close> (the last such pair), verbatim, when there
  is one and it is not empty; it is the fallback name when there is none or the value is
  empty.
\<close>

theorem naming_selects_filename:
  "namingFunction decode now None = Inr (fallback_name now) \<and>
   namingFunction decode now (Some []) = Inr (fallback_name now) \<and>
   (metadata \<noteq> [] \<and> all_one_space metadata \<longrightarrow>
      namingFunction decode now (Some metadata) =
        (case spec_mapping decode metadata ''filename'' of
           None \<Rightarrow> Inr (fallback_name now)
         | Some v \<Rightarrow> if v = [] then Inr (fallback_name now) else Inr v)) \<and>
   fallback_name now = ''file-'' @ decimal now"
proof -
  have a: "namingFunction decode now None = Inr (fallback_name now)"
    and b: "namingFunction decode now (Some []) = Inr (fallback_name now)"
    by (simp_all add: namingFunction_def)
  have c: "fallback_name now = ''file-'' @ decimal now"
    by (simp add: fallback_name_def)
  have d: "metadata \<noteq> [] \<and> all_one_space metadata \<longrightarrow>
      namingFunction decode now (Some metadata) =
        (case spec_mapping decode metadata ''filename'' of
           None \<Rightarrow> Inr (fallback_name now)
         | Some v \<Rightarrow> if v = [] then Inr (fallback_name now) else Inr v)"
    using naming_spec_result [of metadata decode now] by (rule_tac impI) (elim conjE)
  show ?thesis
    by (intro conjI a b c d)
qed

text \<open>
  With base64: the last of two \<^verbatim>\<open>filename\<close> pairs wins, and a header with no such
  pair, or no header, gives \<^verbatim>\<open>file-1700000000000\<close> at that time.
\<close>

theorem naming_selects_filename_witness:
  "all_one_space ''filetype dmlkZW8=,filename YQ==,filename dGVzdC50eHQ='' \<and>
   spec_mapping base64_utf8 ''filetype dmlkZW8=,filename YQ==,filename dGVzdC50eHQ=''
     ''filename'' = Some ''test.txt'' \<and>
   namingFunction base64_utf8 1700000000000
     (Some ''filetype dmlkZW8=,filename YQ==,filename dGVzdC50eHQ='') = Inr ''test.txt'' \<and>
   all_one_space ''filetype dmlkZW8='' \<and>
   spec_mapping base64_utf8 ''filetype dmlkZW8='' ''filename'' = None \<and>
   namingFunction base64_utf8 1700000000000 (Some ''filetype dmlkZW8='') = Inr ''file-1700000000000'' \<and>
   namingFunction base64_utf8 1700000000000 None = Inr ''file-1700000000000''"
proof -
  let ?m = "''filetype dmlkZW8=,filename YQ==,filename dGVzdC50eHQ=''"
  have a: "all_one_space ?m" "all_one_space ''filetype dmlkZW8=''"
    by (simp_all add: all_one_space_def one_space_def)
  have l: "spec_mapping base64_utf8 ?m ''filename'' = Some ''test.txt''"
    "spec_mapping base64_utf8 ''filetype dmlkZW8='' ''filename'' = None"
    by (simp_all add: spec_mapping_def spec_pair_def naming_simps List.map_filter_simps)
  have f: "fallback_name 1700000000000 = ''file-1700000000000''"
    by (simp add: naming_simps)
  show ?thesis
    using a l f
      naming_selects_filename [of base64_utf8 1700000000000 ?m]
      naming_selects_filename [of base64_utf8 1700000000000 "''filetype dmlkZW8=''"]
    by simp
qed

text \<open>
  C7 as stated fails in two ways. On \<^verbatim>\<open>filename ,filetype dmlkZW8=\<close> the mapping has
  the key \<^verbatim>\<open>filename\<close> with the empty string, and the function returns the fallback name,
  not that value. On \<^verbatim>\<open>filename dGVz dA==\<close> the value after the first space decodes to
  \<^verbatim>\<open>test\<close>, and the function, which decodes the text up to the second space, returns
  \<^verbatim>\<open>tes\<close>.
\<close>

theorem naming_filename_counterexample:
  "spec_mapping base64_utf8 ''filename ,filetype dmlkZW8='' ''filename'' = Some [] \<and>
   namingFunction base64_utf8 0 (Some ''filename ,filetype dmlkZW8='') = Inr ''file-0'' \<and>
   namingFunction base64_utf8 0 (Some ''filename ,filetype dmlkZW8='') \<noteq> Inr [] \<and>
   spec_mapping base64_utf8 ''filename dGVz dA=='' ''filename'' = Some ''test'' \<and>
   namingFunction base64_utf8 0 (Some ''filename dGVz dA=='') = Inr ''tes''"
  by (simp add: spec_mapping_def spec_pair_def naming_simps List.map_filter_simps)

section \<open>The gateway\<close>

text \<open>
  C10. When the promise of the engine resolves and no headers were sent, the gateway
  answers 404 with \<^verbatim>\<open>{error: "Not found"}\<close>. When it rejects and no headers were sent,
  the gateway answers 500 with \<^verbatim>\<open>{error: "Internal server error", details: message}\<close>,
  the message being that of the failure. When headers were sent, the response of the
  engine stands in both cases.
\<close>

theorem gateway_fallback_responses:
  "(handle req fresh = (res, Resolved) \<and> \<not> headersSent res \<longrightarrow>
      status (tus_handler handle req) = 404 \<and>
      body (tus_handler handle req) = JsonError ''Not found'' \<and>
      headersSent (tus_handler handle req)) \<and>
   (handle req fresh = (res, Rejected error) \<and> \<not> headersSent res \<longrightarrow>
      status (tus_handler handle req) = 500 \<and>
      body (tus_handler handle req) =
        JsonErrorDetails ''Internal server error'' (message error) \<and>
      headersSent (tus_handler handle req)) \<and>
   (handle req fresh = (res, Resolved) \<and> headersSent res \<longrightarrow> tus_handler handle req = res) \<and>
   (handle req fresh = (res, Rejected error) \<and> headersSent res \<longrightarrow>
      tus_handler handle req = res)"
  by (simp add: tus_handler_def send_json_def set_status_def)

theorem gateway_fallback_responses_witness:
  "engine_silent () fresh = (fresh, Resolved) \<and> \<not> headersSent fresh \<and>
   status (tus_handler engine_silent ()) = 404 \<and>
   body (tus_handler engine_silent ()) = JsonError ''Not found'' \<and>
   engine_failing () fresh = (fresh, Rejected (Error ''disk full'')) \<and>
   status (tus_handler engine_failing ()) = 500 \<and>
   body (tus_handler engine_failing ()) = JsonErrorDetails ''Internal server error'' ''disk full'' \<and>
   status (tus_handler engine_answering ()) = 204"
proof -
  have s: "engine_silent () fresh = (fresh, Resolved)"
    by (simp add: engine_silent_def)
  have f: "engine_failing () fresh = (fresh, Rejected (Error ''disk full''))"
    by (simp add: engine_failing_def)
  have a: "engine_answering () fresh = (fresh\<lparr>status := 204, headersSent := True\<rparr>, Resolved)"
    by (simp add: engine_answering_def)
  have n: "\<not> headersSent fresh"
    by (simp add: fresh_def)
  show ?thesis
    using s f a n
      gateway_fallback_responses [of engine_silent "()" fresh "Error ''disk full''"]
      gateway_fallback_responses [of engine_failing "()" fresh "Error ''disk full''"]
      gateway_fallback_responses [of engine_answering "()"
        "fresh\<lparr>status := 204, headersSent := True\<rparr>" "Error ''disk full''"]
    by simp
qed

section \<open>Path traversal\<close>

text \<open>
  C5. There is a request parameter, \<^verbatim>\<open>..%2Fserver.js\<close>, whose decoded form \<^verbatim>\<open>../server.js\<close> resolves, by
  \<^verbatim>\<open>path.join\<close>, to the path \<^verbatim>\<open>/srv/app/server.js\<close> outside the upload directory
  \<^verbatim>\<open>/srv/app/uploads\<close>; the download handler streams that file and the delete handler
  removes it. Neither handler confines the path.
\<close>

theorem traversal_escapes_upload_directory:
  "\<exists>param filename.
     decodeURIComponent param = Inr filename \<and>
     segs (path_join ex_dir filename) = [''srv'', ''app'', ''server.js''] \<and>
     \<not> prefix ex_dir (segs (path_join ex_dir filename)) \<and>
     map_of ex_fs [''srv'', ''app'', ''server.js''] = Some (File ''listen'' 1) \<and>
     status (get_file_handler ex_dir ex_fs param) = 200 \<and>
     body (get_file_handler ex_dir ex_fs param) = FileStream ''listen'' \<and>
     fst (delete_file_handler ex_dir ex_fs param) = deleted_ok \<and>
     map_of (snd (delete_file_handler ex_dir ex_fs param)) [''srv'', ''app'', ''server.js''] = None"
proof (intro exI conjI)
  show "decodeURIComponent ''..%2Fserver.js'' = Inr ''../server.js''"
    by (simp add: decodeURIComponent_def hex_value_def char_of_def bit_Suc_0_iff)
  show "segs (path_join ex_dir ''../server.js'') = [''srv'', ''app'', ''server.js'']"
    by (simp add: ex_simps)
  show "\<not> prefix ex_dir (segs (path_join ex_dir ''../server.js''))"
    by (simp add: ex_simps)
  show "map_of ex_fs [''srv'', ''app'', ''server.js''] = Some (File ''listen'' 1)"
    by (simp add: ex_simps)
  show "status (get_file_handler ex_dir ex_fs ''..%2Fserver.js'') = 200"
    by (simp add: ex_simps get_file_handler_def setHeader_def pipe_file_def hex_value_def
        char_of_def bit_Suc_0_iff)
  show "body (get_file_handler ex_dir ex_fs ''..%2Fserver.js'') = FileStream ''listen''"
    by (simp add: ex_simps get_file_handler_def setHeader_def pipe_file_def hex_value_def
        char_of_def bit_Suc_0_iff)
  show "fst (delete_file_handler ex_dir ex_fs ''..%2Fserver.js'') = deleted_ok"
    by (simp add: ex_simps hex_value_def char_of_def bit_Suc_0_iff)
  show "map_of (snd (delete_file_handler ex_dir ex_fs ''..%2Fserver.js''))
      [''srv'', ''app'', ''server.js''] = None"
    by (simp add: ex_simps hex_value_def char_of_def bit_Suc_0_iff)
qed

end
